theory Spec2Isabelle
  imports Main
begin

section \<open>Exceptions and values\<close>

text \<open>
  Python exceptions are values: the class that was raised and the text \<open>str(e)\<close> gives.
  Only \<open>Exception\<close> subclasses are modelled (every handler of the pipeline is
  \<open>except Exception\<close> or narrower). The texts that libraries compose (the position in a
  JSON error, the quoted key of a \<open>KeyError\<close>, the repr inside a \<open>RetryError\<close>, the
  wording of an \<open>AttributeError\<close>) are abbreviated; the statements below speak of a text
  only as \<open>str_of\<close> of the exception.
\<close>

datatype exc_kind =
    Exception
  | KeyError
  | TypeError
  | ValueError
  | AttributeError
  | ValidationError
  | JSONDecodeError
  | MessageLockLostError
  | RetryError
  | ReplicateAPIError
  | ReplicateTimeoutError
  | ReplicateRateLimitError
  | ContentSafetyError
  | HTTPError
  | InsufficientCreditsError

datatype error = Exc exc_kind string

fun kind_of :: "error \<Rightarrow> exc_kind" where
  "kind_of (Exc k m) = k"

fun str_of :: "error \<Rightarrow> string" where
  "str_of (Exc k m) = m"

text \<open>
  Values stored in documents and carried in the settings bag. \<open>VTime\<close> is a reading of
  the clock (\<open>datetime.utcnow()\<close>, also in its \<open>isoformat()\<close> text).
\<close>

datatype val =
    VNone
  | VBool bool
  | VInt int
  | VStr string
  | VTime nat
  | VList "val list"
  | VDict "(string \<times> val) list"

type_synonym pydict = "(string \<times> val) list"

type_synonym document = "string \<rightharpoonup> val"

text \<open>\<open>d.get(k)\<close> on a dictionary literal: \<open>None\<close> when the key is absent.\<close>

definition dict_get :: "pydict \<Rightarrow> string \<Rightarrow> val" where
  "dict_get d k = (case map_of d k of None \<Rightarrow> VNone | Some v \<Rightarrow> v)"

text \<open>Decimal text of an integer, for the f-strings that print one.\<close>

fun str_nat :: "nat \<Rightarrow> string" where
  "str_nat n =
     (if n < 10 then [char_of (48 + n)]
      else str_nat (n div 10) @ [char_of (48 + n mod 10)])"

definition str_int :: "int \<Rightarrow> string" where
  "str_int i = (if i < 0 then CHR ''-'' # str_nat (nat (- i)) else str_nat (nat i))"

section \<open>The job message (queue\_service.py, GenerationJobMessage)\<close>

record GenerationJobMessage =
  generation_id :: string
  user_id :: string
  job_type :: string
  prompt :: string
  model :: string
  settings :: pydict
  callback_url :: "string option"
  priority :: string
  attempt :: int
  created_at :: nat
  message_id :: nat

text \<open>
  The dictionary \<open>to_dict\<close> builds and \<open>from_dict\<close> reads: one optional entry per key
  of the wire format, each of the type the constructor annotates (\<open>None\<close>: the key is
  absent; for \<open>settings\<close> and \<open>callback_url\<close> also a JSON \<open>null\<close>, which \<open>.get\<close> cannot
  tell from an absent key).
\<close>

record job_data =
  d_message_id :: "nat option"
  d_generation_id :: "string option"
  d_user_id :: "string option"
  d_type :: "string option"
  d_prompt :: "string option"
  d_model :: "string option"
  d_settings :: "pydict option"
  d_callback_url :: "string option"
  d_priority :: "string option"
  d_attempt :: "int option"
  d_created_at :: "nat option"

text \<open>
  What \<open>json.loads\<close> can return: an object, or a JSON value that is not an object (an
  array, a string, a number, a boolean, \<open>null\<close>). A message body is text: the dump of a
  JSON value, or text \<open>json.loads\<close> rejects.
\<close>

datatype json = JsonObject job_data | JsonOther

datatype body = JsonText json | BadText string

definition json_dumps :: "job_data \<Rightarrow> body" where
  "json_dumps d = JsonText (JsonObject d)"

fun json_loads :: "body \<Rightarrow> error + json" where
  "json_loads (JsonText j) = Inr j"
| "json_loads (BadText t) = Inl (Exc JSONDecodeError ''Expecting value'')"

section \<open>The broker, the stores and the world\<close>

record ServiceBusMessage =
  sb_message_id :: nat
  sb_body :: body
  application_properties :: "(string \<times> string) list"
  scheduled_enqueue_time_utc :: "nat option"

text \<open>
  The receiver's settlement calls, in the order they are made: \<open>complete_message\<close>,
  \<open>abandon_message\<close> (with its \<open>properties_to_modify\<close>) and \<open>dead_letter_message\<close>
  (with reason and error description), each on the broker message of that id.
\<close>

datatype settlement =
    Complete nat
  | Abandon nat "pydict option"
  | DeadLetter nat string string

text \<open>
  A document of the users collection that satisfies the \<open>User\<close> schema; of its fields the
  ledger operations read and write the integer \<open>credits_remaining\<close> and \<open>updated_at\<close>.
\<close>

record user_doc =
  u_credits_remaining :: int
  u_updated_at :: nat

text \<open>The counters of \<open>WorkerMetrics\<close>; the summed processing time, a float, is left out.\<close>

record WorkerMetrics =
  jobs_processed :: nat
  jobs_succeeded :: nat
  jobs_failed :: nat

text \<open>
  Everything the pipeline reads and writes: the generations and users collections, the
  blob paths written to the object store, the main queue and the dead-letter queue, the
  settlement calls, the webhook posts, the metrics. The database and the broker are
  reliable (a \<open>PyMongoError\<close> or a transport failure is not modelled); \<open>clock\<close> is what
  \<open>datetime.utcnow()\<close> returns, in milliseconds, moved only by the environment, and
  \<open>uuid_next\<close> numbers the draws of \<open>uuid4()\<close>, which never repeat.
\<close>

record world =
  generations :: "string \<rightharpoonup> document"
  users :: "string \<rightharpoonup> user_doc"
  blobs :: "string list"
  queue :: "ServiceBusMessage list"
  dead_letters :: "ServiceBusMessage list"
  settlements :: "settlement list"
  webhooks :: "(string \<times> string) list"
  metrics :: WorkerMetrics
  clock :: nat
  uuid_next :: nat

section \<open>Serialization\<close>

text \<open>\<open>GenerationJobMessage.__init__\<close>: stamps the clock and draws a new token.\<close>

definition GenerationJobMessage_init ::
  "string \<Rightarrow> string \<Rightarrow> string \<Rightarrow> string \<Rightarrow> string \<Rightarrow> pydict option \<Rightarrow> string option \<Rightarrow>
   string \<Rightarrow> int \<Rightarrow> world \<Rightarrow> GenerationJobMessage \<times> world" where
  "GenerationJobMessage_init gid uid p m jt st cb pr att w =
     (\<lparr> generation_id = gid, user_id = uid, job_type = jt, prompt = p, model = m,
        settings = (case st of None \<Rightarrow> [] | Some s \<Rightarrow> (if s = [] then [] else s)),
        callback_url = cb, priority = pr, attempt = att,
        created_at = clock w, message_id = uuid_next w \<rparr>,
      w\<lparr> uuid_next := uuid_next w + 1 \<rparr>)"

definition to_dict :: "GenerationJobMessage \<Rightarrow> job_data" where
  "to_dict m =
     \<lparr> d_message_id = Some (message_id m),
       d_generation_id = Some (generation_id m),
       d_user_id = Some (user_id m),
       d_type = Some (job_type m),
       d_prompt = Some (prompt m),
       d_model = Some (model m),
       d_settings = Some (settings m),
       d_callback_url = callback_url m,
       d_priority = Some (priority m),
       d_attempt = Some (attempt m),
       d_created_at = Some (created_at m) \<rparr>"

definition to_json :: "GenerationJobMessage \<Rightarrow> body" where
  "to_json m = json_dumps (to_dict m)"

text \<open>
  \<open>from_dict\<close>: the four subscripted keys raise \<open>KeyError\<close> when absent, in the order
  the call evaluates them; the others have defaults. \<open>message_id\<close> and \<open>created_at\<close>
  are not read. Subscripting a value that is not an object raises \<open>TypeError\<close>.
\<close>

fun from_dict :: "json \<Rightarrow> world \<Rightarrow> (error + GenerationJobMessage) \<times> world" where
  "from_dict JsonOther w = (Inl (Exc TypeError ''indices must be integers''), w)"
| "from_dict (JsonObject d) w =
     (case d_generation_id d of
        None \<Rightarrow> (Inl (Exc KeyError ''generation_id''), w)
      | Some gid \<Rightarrow>
     (case d_user_id d of
        None \<Rightarrow> (Inl (Exc KeyError ''user_id''), w)
      | Some uid \<Rightarrow>
     (case d_prompt d of
        None \<Rightarrow> (Inl (Exc KeyError ''prompt''), w)
      | Some p \<Rightarrow>
     (case d_model d of
        None \<Rightarrow> (Inl (Exc KeyError ''model''), w)
      | Some m \<Rightarrow>
          (let (msg, w') =
             GenerationJobMessage_init gid uid p m
               (case d_type d of None \<Rightarrow> ''text_to_image'' | Some t \<Rightarrow> t)
               (d_settings d)
               (d_callback_url d)
               (case d_priority d of None \<Rightarrow> ''normal'' | Some q \<Rightarrow> q)
               (case d_attempt d of None \<Rightarrow> 1 | Some a \<Rightarrow> a)
               w
           in (Inr msg, w'))))))"

definition from_json :: "body \<Rightarrow> world \<Rightarrow> (error + GenerationJobMessage) \<times> world" where
  "from_json b w =
     (case json_loads b of
        Inl e \<Rightarrow> (Inl e, w)
      | Inr j \<Rightarrow> from_dict j w)"

section \<open>The queue gateway (queue\_service.py, AzureServiceBusService)\<close>

text \<open>The receiver's own calls; the broker moves a dead-lettered message to its sub-queue.\<close>

definition complete_message :: "ServiceBusMessage \<Rightarrow> world \<Rightarrow> world" where
  "complete_message m w = w\<lparr> settlements := settlements w @ [Complete (sb_message_id m)] \<rparr>"

definition abandon_message :: "ServiceBusMessage \<Rightarrow> pydict option \<Rightarrow> world \<Rightarrow> world" where
  "abandon_message m props w =
     w\<lparr> settlements := settlements w @ [Abandon (sb_message_id m) props] \<rparr>"

definition dead_letter_message :: "ServiceBusMessage \<Rightarrow> string \<Rightarrow> string \<Rightarrow> world \<Rightarrow> world" where
  "dead_letter_message m reason error_description w =
     w\<lparr> settlements := settlements w @ [DeadLetter (sb_message_id m) reason error_description],
        dead_letters := dead_letters w @ [m] \<rparr>"

text \<open>
  \<open>send_generation_request\<close>: builds a new job message from its arguments (it has no
  \<open>attempt\<close> parameter, so the constructor's default 1 applies), wraps it and sends it.
\<close>

definition send_generation_request ::
  "string \<Rightarrow> string \<Rightarrow> string \<Rightarrow> string \<Rightarrow> string \<Rightarrow> pydict option \<Rightarrow> string option \<Rightarrow>
   string \<Rightarrow> nat option \<Rightarrow> world \<Rightarrow> bool \<times> world" where
  "send_generation_request gid uid p m jt st cb pr scheduled w =
     (let (job_message, w1) = GenerationJobMessage_init gid uid p m jt st cb pr 1 w;
          message = \<lparr> sb_message_id = message_id job_message,
                      sb_body = to_json job_message,
                      application_properties =
                        [(''generation_id'', gid), (''user_id'', uid),
                         (''priority'', pr), (''job_type'', jt)],
                      scheduled_enqueue_time_utc = scheduled \<rparr>
      in (True, w1\<lparr> queue := queue w1 @ [message] \<rparr>))"

type_synonym callback =
  "GenerationJobMessage \<Rightarrow> ServiceBusMessage \<Rightarrow> world \<Rightarrow> (error + bool) \<times> world"

type_synonym received = "(GenerationJobMessage \<times> ServiceBusMessage) list"

text \<open>
  The \<open>try\<close> block of \<open>receive_messages\<close> for one delivered message, up to the test of
  \<open>max_messages\<close>: parse the body, then either run the callback and settle by its result
  or collect the message.
\<close>

definition receive_try ::
  "callback option \<Rightarrow> ServiceBusMessage \<Rightarrow> received \<Rightarrow> world \<Rightarrow> (error + unit) \<times> received \<times> world" where
  "receive_try processor_callback message messages_received w =
     (case json_loads (sb_body message) of
        Inl e \<Rightarrow> (Inl e, messages_received, w)
      | Inr job_data \<Rightarrow>
     (case from_dict job_data w of
        (Inl e, w1) \<Rightarrow> (Inl e, messages_received, w1)
      | (Inr job_message, w1) \<Rightarrow>
     (case processor_callback of
        Some f \<Rightarrow>
          (case f job_message message w1 of
             (Inl e, w2) \<Rightarrow> (Inl e, messages_received, w2)
           | (Inr success, w2) \<Rightarrow>
               (Inr (), messages_received,
                if success then complete_message message w2
                else abandon_message message None w2))
      | None \<Rightarrow> (Inr (), messages_received @ [(job_message, message)], w1))))"

text \<open>
  The loop over the messages the receiver delivers before \<open>max_wait_time\<close> passes with
  none. \<open>MessageLockLostError\<close> is logged; every other exception dead-letters the
  message; the loop stops early once \<open>max_messages\<close> were collected.
\<close>

fun receive_loop ::
  "callback option \<Rightarrow> int \<Rightarrow> ServiceBusMessage list \<Rightarrow> received \<Rightarrow> world \<Rightarrow> received \<times> world" where
  "receive_loop cb max_messages [] acc w = (acc, w)"
| "receive_loop cb max_messages (message # rest) acc w =
     (case receive_try cb message acc w of
        (Inr u, acc', w') \<Rightarrow>
          (if int (length acc') \<ge> max_messages then (acc', w')
           else receive_loop cb max_messages rest acc' w')
      | (Inl e, acc', w') \<Rightarrow>
          (if kind_of e = MessageLockLostError then receive_loop cb max_messages rest acc' w'
           else receive_loop cb max_messages rest acc'
                  (dead_letter_message message ''ProcessingError'' (str_of e) w')))"

definition receive_messages ::
  "int \<Rightarrow> callback option \<Rightarrow> ServiceBusMessage list \<Rightarrow> world \<Rightarrow> received \<times> world" where
  "receive_messages max_messages processor_callback delivered w =
     receive_loop processor_callback max_messages delivered [] w"

text \<open>
  \<open>resubmit_dead_letter_message\<close>: the loop over the messages the dead-letter receiver
  delivers. The first one with the given id is parsed, its \<open>attempt\<close> is incremented on
  the parsed object, \<open>send_generation_request\<close> is called with the fields it accepts,
  and the dead-lettered message is completed. Any exception gives \<open>False\<close>.
\<close>

fun resubmit_loop :: "nat \<Rightarrow> ServiceBusMessage list \<Rightarrow> world \<Rightarrow> (error + bool) \<times> world" where
  "resubmit_loop mid [] w = (Inr False, w)"
| "resubmit_loop mid (message # rest) w =
     (if sb_message_id message = mid then
        (case json_loads (sb_body message) of
           Inl e \<Rightarrow> (Inl e, w)
         | Inr job_data \<Rightarrow>
        (case from_dict job_data w of
           (Inl e, w1) \<Rightarrow> (Inl e, w1)
         | (Inr parsed, w1) \<Rightarrow>
             (let job_message = parsed\<lparr> attempt := attempt parsed + 1 \<rparr>;
                  (sent, w2) =
                    send_generation_request (generation_id job_message) (user_id job_message)
                      (prompt job_message) (model job_message) (job_type job_message)
                      (Some (settings job_message)) (callback_url job_message)
                      (priority job_message) None w1;
                  w3 = complete_message message
                         (w2\<lparr> dead_letters := remove1 message (dead_letters w2) \<rparr>)
              in (Inr True, w3))))
      else resubmit_loop mid rest w)"

definition resubmit_dead_letter_message :: "nat \<Rightarrow> world \<Rightarrow> bool \<times> world" where
  "resubmit_dead_letter_message mid w =
     (case resubmit_loop mid (dead_letters w) w of
        (Inl e, w') \<Rightarrow> (False, w')
      | (Inr b, w') \<Rightarrow> (b, w'))"

section \<open>The repositories (base\_repository.py, generation\_repository.py)\<close>

datatype DBGenerationStatus = PENDING | PROCESSING | COMPLETED | FAILED | CANCELLED

fun status_value :: "DBGenerationStatus \<Rightarrow> string" where
  "status_value PENDING = ''pending''"
| "status_value PROCESSING = ''processing''"
| "status_value COMPLETED = ''completed''"
| "status_value FAILED = ''failed''"
| "status_value CANCELLED = ''cancelled''"

text \<open>
  What a repository is constructed over and calls \<open>self.collection\<close>: a Motor collection,
  as the constructors declare, or the \<open>MongoDBService\<close> object, which has none of a
  collection's methods, so that looking one up on it raises \<open>AttributeError\<close>. A
  \<open>GenerationRepository\<close> over a Motor collection is over the generations collection, a
  \<open>UserRepository\<close> over the users collection.
\<close>

datatype collection = MotorCollection | MongoDBServiceObject

definition no_attribute :: "string \<Rightarrow> string \<Rightarrow> error" where
  "no_attribute cls name = Exc AttributeError (cls @ '' object has no attribute '' @ name)"

text \<open>
  \<open>Generation(**doc)\<close>, the validation every repository method runs on the document it
  returns: the fields of the model in models/generation.py with their types and bounds.
  A field passes when its value has the annotated type (pydantic's coercions between
  types are not modelled; \<open>val\<close> has no floats, so the float \<open>guidance_scale\<close> passes on
  an integer); an absent field with a default passes and other keys are ignored; \<open>id\<close>
  is not checked, since every method overwrites it with the text of the document's
  \<open>_id\<close> before validating.
\<close>

definition has_default :: "document \<Rightarrow> string \<Rightarrow> (val \<Rightarrow> bool) \<Rightarrow> bool" where
  "has_default d k ok = (case d k of None \<Rightarrow> True | Some v \<Rightarrow> ok v)"

definition required :: "document \<Rightarrow> string \<Rightarrow> (val \<Rightarrow> bool) \<Rightarrow> bool" where
  "required d k ok = (case d k of None \<Rightarrow> False | Some v \<Rightarrow> ok v)"

fun is_str :: "val \<Rightarrow> bool" where
  "is_str (VStr s) = True"
| "is_str v = False"

fun is_int :: "val \<Rightarrow> bool" where
  "is_int (VInt i) = True"
| "is_int v = False"

fun is_datetime :: "val \<Rightarrow> bool" where
  "is_datetime (VTime t) = True"
| "is_datetime v = False"

fun is_str_list :: "val \<Rightarrow> bool" where
  "is_str_list (VList vs) = list_all is_str vs"
| "is_str_list v = False"

fun str_between :: "nat \<Rightarrow> nat \<Rightarrow> val \<Rightarrow> bool" where
  "str_between lo hi (VStr s) = (lo \<le> length s \<and> length s \<le> hi)"
| "str_between lo hi v = False"

fun int_between :: "int \<Rightarrow> int \<Rightarrow> val \<Rightarrow> bool" where
  "int_between lo hi (VInt i) = (lo \<le> i \<and> i \<le> hi)"
| "int_between lo hi v = False"

fun str_in :: "string list \<Rightarrow> val \<Rightarrow> bool" where
  "str_in xs (VStr s) = (s \<in> set xs)"
| "str_in xs v = False"

definition optional :: "(val \<Rightarrow> bool) \<Rightarrow> val \<Rightarrow> bool" where
  "optional ok v = (v = VNone \<or> ok v)"

definition Generation :: "document \<Rightarrow> error option" where
  "Generation d =
     (if required d ''prompt'' (str_between 1 2000) \<and>
         has_default d ''negative_prompt'' (optional (str_between 0 1000)) \<and>
         has_default d ''model_type''
           (str_in [''stable-diffusion-xl'', ''stable-diffusion-v2'', ''dalle-3'', ''midjourney'']) \<and>
         has_default d ''image_size''
           (str_in [''512x512'', ''1024x1024'', ''768x1024'', ''1024x768'', ''1024x576'']) \<and>
         has_default d ''num_images'' (int_between 1 4) \<and>
         required d ''user_id'' is_str \<and>
         has_default d ''status''
           (str_in [''pending'', ''processing'', ''completed'', ''failed'', ''cancelled'']) \<and>
         has_default d ''replicate_prediction_id'' (optional is_str) \<and>
         has_default d ''replicate_version'' (optional is_str) \<and>
         has_default d ''result_urls'' is_str_list \<and>
         has_default d ''blob_urls'' is_str_list \<and>
         has_default d ''guidance_scale'' is_int \<and>
         has_default d ''num_inference_steps'' is_int \<and>
         has_default d ''seed'' (optional is_int) \<and>
         has_default d ''error_message'' (optional is_str) \<and>
         has_default d ''processing_time_ms'' (optional is_int) \<and>
         has_default d ''cost_credits'' is_int \<and>
         has_default d ''created_at'' is_datetime \<and>
         has_default d ''updated_at'' is_datetime \<and>
         has_default d ''started_at'' (optional is_datetime) \<and>
         has_default d ''completed_at'' (optional is_datetime)
      then None
      else Some (Exc ValidationError ''validation error for Generation''))"

text \<open>
  \<open>BaseRepository.find_by_id\<close> of a generation repository: \<open>None\<close> when the filter
  \<open>{"id": document_id}\<close> finds nothing, else the validated document.
\<close>

definition find_by_id :: "collection \<Rightarrow> string \<Rightarrow> world \<Rightarrow> error + document option" where
  "find_by_id coll document_id w =
     (case coll of
        MongoDBServiceObject \<Rightarrow> Inl (no_attribute ''MongoDBService'' ''find_one'')
      | MotorCollection \<Rightarrow>
          (case generations w document_id of
             None \<Rightarrow> Inr None
           | Some doc \<Rightarrow>
               (case Generation doc of
                  Some e \<Rightarrow> Inl e
                | None \<Rightarrow> Inr (Some doc))))"

text \<open>
  \<open>BaseRepository.update_by_id\<close> of a generation repository: stamps \<open>updated_at\<close>, applies
  \<open>$set\<close> to the document the filter \<open>{"id": document_id}\<close> finds (\<open>None\<close> when there is
  none), and then validates the written document, so that a validation error is raised
  after the write.
\<close>

definition update_by_id ::
  "collection \<Rightarrow> string \<Rightarrow> document \<Rightarrow> world \<Rightarrow> (error + document option) \<times> world" where
  "update_by_id coll document_id update_data w =
     (let upd = update_data(''updated_at'' \<mapsto> VTime (clock w)) in
      case coll of
        MongoDBServiceObject \<Rightarrow> (Inl (no_attribute ''MongoDBService'' ''find_one_and_update''), w)
      | MotorCollection \<Rightarrow>
          (case generations w document_id of
             None \<Rightarrow> (Inr None, w)
           | Some d \<Rightarrow>
               (let result = d ++ upd;
                    w' = w\<lparr> generations := (generations w)(document_id \<mapsto> result) \<rparr>
                in case Generation result of
                     Some e \<Rightarrow> (Inl e, w')
                   | None \<Rightarrow> (Inr (Some result), w'))))"

text \<open>
  \<open>GenerationRepository.update_status\<close>. The difference of the two clock readings stands
  for \<open>int(processing_time.total_seconds() * 1000)\<close>, whose float rounding is not
  modelled.
\<close>

definition update_status ::
  "collection \<Rightarrow> string \<Rightarrow> DBGenerationStatus \<Rightarrow> document \<Rightarrow> world \<Rightarrow>
   (error + document option) \<times> world" where
  "update_status coll gid status kwargs w =
     (let update_dict = [''status'' \<mapsto> VStr (status_value status)] ++ kwargs in
      if status = PROCESSING then
        update_by_id coll gid (update_dict(''started_at'' \<mapsto> VTime (clock w))) w
      else if status = COMPLETED \<or> status = FAILED then
        (let update_dict = update_dict(''completed_at'' \<mapsto> VTime (clock w)) in
         if update_dict ''started_at'' = None then
           (case find_by_id coll gid w of
              Inl e \<Rightarrow> (Inl e, w)
            | Inr None \<Rightarrow> update_by_id coll gid update_dict w
            | Inr (Some existing) \<Rightarrow>
                (case existing ''started_at'' of
                   Some (VTime t) \<Rightarrow>
                     update_by_id coll gid
                       (update_dict(''processing_time_ms'' \<mapsto> VInt (int (clock w) - int t))) w
                 | _ \<Rightarrow> update_by_id coll gid update_dict w))
         else update_by_id coll gid update_dict w)
      else update_by_id coll gid update_dict w)"

section \<open>The object store (azure\_blob\_service.py, AzureBlobService)\<close>

type_synonym image = "string \<times> string"

text \<open>
  What the synthesis adapter returns, as the worker reads it: \<open>["status"]\<close>,
  \<open>["output"]\<close>, \<open>.get("error", ...)\<close> (the key absent, \<open>null\<close>, or a text),
  \<open>.get("metrics", {})\<close>. \<open>pr_time_ms\<close> is the value of
  \<open>predict_time * 1000 if predict_time else None\<close>, a float computation taken as given.
\<close>

record prediction_result =
  pr_status :: string
  pr_output :: "string list"
  pr_error :: "string option option"
  pr_metrics :: pydict
  pr_time_ms :: val

text \<open>
  The collaborators outside the program, as parameters: \<open>generate_and_wait\<close>, the adapter
  method the worker calls (replicate\_service.py does not define it; it is called with
  prompt, model and settings, and the number says which try of the retry decorator it
  is); \<open>download_image\<close>, the HTTP download of one URL; and \<open>blob_upload\<close>, the calls of
  \<open>upload_image\<close> into the image library and the Azure SDK for one blob path, with the
  retries of its decorator: the exception that comes out of them, or the URL of the main
  blob and the upload metadata.
\<close>

record env =
  generate_and_wait :: "string \<Rightarrow> string \<Rightarrow> pydict \<Rightarrow> nat \<Rightarrow> error + prediction_result"
  download_image :: "string \<Rightarrow> error + image"
  blob_upload :: "string \<Rightarrow> image \<Rightarrow> error + (string \<times> pydict)"

definition get_blob_path :: "string \<Rightarrow> string \<Rightarrow> string \<Rightarrow> string" where
  "get_blob_path uid gid filename = uid @ ''/'' @ gid @ ''/'' @ filename"

text \<open>
  \<open>upload_image\<close> with \<open>optimize=True\<close>: uploads the thumbnail and the main blob and
  returns the tuple \<open>(blob_url, blob_path, upload_metadata)\<close>. When it returns, both
  blobs are written (what a failed call may have written is not recorded).
\<close>

definition upload_image ::
  "env \<Rightarrow> string \<Rightarrow> string \<Rightarrow> string \<Rightarrow> string \<Rightarrow> string \<Rightarrow> world \<Rightarrow>
   (error + string \<times> string \<times> pydict) \<times> world" where
  "upload_image env uid gid filename image_data content_type w =
     (let thumbnail_path = get_blob_path uid gid (''thumb_'' @ filename);
          blob_path = get_blob_path uid gid filename
      in case blob_upload env blob_path (image_data, content_type) of
           Inl e \<Rightarrow> (Inl e, w)
         | Inr (blob_url, upload_metadata) \<Rightarrow>
             (Inr (blob_url, blob_path, upload_metadata),
              w\<lparr> blobs := blobs w @ [thumbnail_path, blob_path] \<rparr>))"

section \<open>The worker (worker\_service.py, BackgroundWorker)\<close>

text \<open>
  \<open>BackgroundWorker.__init__\<close> builds its generation repository over the object it is
  given as \<open>mongodb_service\<close>, the \<open>MongoDBService\<close> that worker.py passes.
\<close>

definition generation_repo :: collection where
  "generation_repo = MongoDBServiceObject"

definition max_retries :: int where
  "max_retries = 3"

definition record_success :: "world \<Rightarrow> world" where
  "record_success w =
     w\<lparr> metrics := (metrics w)\<lparr> jobs_processed := jobs_processed (metrics w) + 1,
                                 jobs_succeeded := jobs_succeeded (metrics w) + 1 \<rparr> \<rparr>"

definition record_failure :: "world \<Rightarrow> world" where
  "record_failure w =
     w\<lparr> metrics := (metrics w)\<lparr> jobs_processed := jobs_processed (metrics w) + 1,
                                 jobs_failed := jobs_failed (metrics w) + 1 \<rparr> \<rparr>"

text \<open>
  \<open>_call_replicate_api\<close> under \<open>@retry(stop=stop_after_attempt(3))\<close>: up to three calls;
  when the third raises too, the decorator raises \<open>RetryError\<close> (its text, which wraps
  the last try, is abbreviated).
\<close>

definition call_replicate_api :: "env \<Rightarrow> GenerationJobMessage \<Rightarrow> error + prediction_result" where
  "call_replicate_api env job_message =
     (let call = generate_and_wait env (prompt job_message) (model job_message) (settings job_message) in
      case call 0 of
        Inr r \<Rightarrow> Inr r
      | Inl e0 \<Rightarrow>
     (case call 1 of
        Inr r \<Rightarrow> Inr r
      | Inl e1 \<Rightarrow>
     (case call 2 of
        Inr r \<Rightarrow> Inr r
      | Inl e2 \<Rightarrow> Inl (Exc RetryError (''RetryError['' @ str_of e2 @ '']'')))))"

text \<open>\<open>ReplicateService.download_all_outputs\<close>: the downloads that did not raise, in order.\<close>

fun download_all_outputs :: "env \<Rightarrow> string list \<Rightarrow> image list" where
  "download_all_outputs env [] = []"
| "download_all_outputs env (url # urls) =
     (case download_image env url of
        Inl e \<Rightarrow> download_all_outputs env urls
      | Inr img \<Rightarrow> img # download_all_outputs env urls)"

text \<open>\<open>content_type.split("/")[-1]\<close>.\<close>

definition after_last_slash :: "string \<Rightarrow> string" where
  "after_last_slash s = rev (takeWhile (\<lambda>c. c \<noteq> CHR ''/'') (rev s))"

text \<open>
  The body of the \<open>try\<close> in \<open>_upload_images\<close> for the image at one index. It calls
  \<open>upload_image\<close> and then subscripts what that returned, a tuple, with
  \<open>"blob_path"\<close>, which raises \<open>TypeError\<close>: the statements after it (signed URLs, CDN
  URLs, the dictionary appended to \<open>blob_urls\<close>) are never reached.
\<close>

definition upload_try ::
  "env \<Rightarrow> string \<Rightarrow> string \<Rightarrow> nat \<Rightarrow> image \<Rightarrow> world \<Rightarrow> (error + pydict) \<times> world" where
  "upload_try env gid uid idx img w =
     (let (image_bytes, content_type) = img;
          extension = after_last_slash content_type;
          filename = ''output_'' @ str_nat idx @ ''.'' @ extension
      in case upload_image env uid gid filename image_bytes content_type w of
           (Inl e, w') \<Rightarrow> (Inl e, w')
         | (Inr result, w') \<Rightarrow>
             (Inl (Exc TypeError ''tuple indices must be integers or slices, not str''), w'))"

text \<open>The loop of \<open>_upload_images\<close> over \<open>enumerate(images)\<close>: a failed image is skipped.\<close>

fun upload_loop ::
  "env \<Rightarrow> string \<Rightarrow> string \<Rightarrow> nat \<Rightarrow> image list \<Rightarrow> pydict list \<Rightarrow> world \<Rightarrow> pydict list \<times> world" where
  "upload_loop env gid uid idx [] blob_urls w = (blob_urls, w)"
| "upload_loop env gid uid idx (img # rest) blob_urls w =
     (case upload_try env gid uid idx img w of
        (Inl e, w') \<Rightarrow> upload_loop env gid uid (idx + 1) rest blob_urls w'
      | (Inr entry, w') \<Rightarrow> upload_loop env gid uid (idx + 1) rest (blob_urls @ [entry]) w')"

definition upload_images ::
  "env \<Rightarrow> string \<Rightarrow> string \<Rightarrow> image list \<Rightarrow> GenerationJobMessage \<Rightarrow> world \<Rightarrow>
   (error + pydict list) \<times> world" where
  "upload_images env gid uid images job_message w =
     (let (blob_urls, w') = upload_loop env gid uid 0 images [] w in
      if blob_urls = [] then
        (Inl (Exc Exception ''Failed to upload any images to blob storage''), w')
      else (Inr blob_urls, w'))"

text \<open>
  \<open>_update_status\<close>: one \<open>update_by_id\<close> with the status and the additional fields; what
  it raises is logged and dropped.
\<close>

definition update_status_worker ::
  "string \<Rightarrow> DBGenerationStatus \<Rightarrow> document \<Rightarrow> world \<Rightarrow> world" where
  "update_status_worker gid status additional_data w =
     (let update_data =
        [''status'' \<mapsto> VStr (status_value status), ''updated_at'' \<mapsto> VTime (clock w)]
          ++ additional_data
      in case update_by_id generation_repo gid update_data w of
           (Inl e, w') \<Rightarrow> w'
         | (Inr r, w') \<Rightarrow> w')"

text \<open>\<open>_update_completion\<close>: what \<open>update_by_id\<close> raises is logged and raised again.\<close>

definition update_completion ::
  "string \<Rightarrow> pydict list \<Rightarrow> prediction_result \<Rightarrow> world \<Rightarrow> (error + unit) \<times> world" where
  "update_completion gid blob_urls pr w =
     (let primary_result = (case blob_urls of [] \<Rightarrow> [] | b # bs \<Rightarrow> b);
          update_data =
            [''status'' \<mapsto> VStr (status_value COMPLETED),
             ''image_url'' \<mapsto> dict_get primary_result ''blob_url'',
             ''thumbnail_url'' \<mapsto> dict_get primary_result ''thumbnail_url'',
             ''cdn_url'' \<mapsto> dict_get primary_result ''cdn_url'',
             ''cdn_thumbnail_url'' \<mapsto> dict_get primary_result ''cdn_thumbnail_url'',
             ''blob_path'' \<mapsto> dict_get primary_result ''blob_path'',
             ''file_size'' \<mapsto> dict_get primary_result ''file_size'',
             ''dimensions'' \<mapsto> dict_get primary_result ''dimensions'',
             ''all_outputs'' \<mapsto> VList (map VDict blob_urls),
             ''completed_at'' \<mapsto> VTime (clock w),
             ''processing_time_ms'' \<mapsto> pr_time_ms pr,
             ''metadata'' \<mapsto>
               VDict [(''replicate_metrics'', VDict (pr_metrics pr)),
                      (''total_outputs'', VInt (int (length blob_urls)))]]
      in case update_by_id generation_repo gid update_data w of
           (Inl e, w') \<Rightarrow> (Inl e, w')
         | (Inr r, w') \<Rightarrow> (Inr (), w'))"

text \<open>The POST is attempted; whatever it raises is logged and dropped.\<close>

definition send_webhook_notification :: "string \<Rightarrow> string \<Rightarrow> world \<Rightarrow> world" where
  "send_webhook_notification url gid w = w\<lparr> webhooks := webhooks w @ [(url, gid)] \<rparr>"

text \<open>
  \<open>_handle_job_failure\<close>: asks the repository to record the failure on the generation
  record, then decides the return value from \<open>attempt\<close>; both branches return \<open>False\<close>.
\<close>

definition handle_job_failure ::
  "GenerationJobMessage \<Rightarrow> ServiceBusMessage \<Rightarrow> error \<Rightarrow> world \<Rightarrow> bool \<times> world" where
  "handle_job_failure job_message raw_message e w =
     (let w1 = update_status_worker (generation_id job_message) FAILED
                 [''error_message'' \<mapsto> VStr (str_of e),
                  ''failed_at'' \<mapsto> VTime (clock w),
                  ''attempts'' \<mapsto> VInt (attempt job_message)] w
      in if attempt job_message < max_retries then (False, w1) else (False, w1))"

text \<open>The \<open>try\<close> block of \<open>process_generation_job\<close>, steps 1 to 6.\<close>

definition process_try :: "env \<Rightarrow> GenerationJobMessage \<Rightarrow> world \<Rightarrow> (error + unit) \<times> world" where
  "process_try env job_message w =
     (let gid = generation_id job_message;
          uid = user_id job_message;
          w1 = update_status_worker gid PROCESSING [''started_at'' \<mapsto> VTime (clock w)] w
      in
      case call_replicate_api env job_message of
        Inl e \<Rightarrow> (Inl e, w1)
      | Inr pr \<Rightarrow>
          if pr_status pr \<noteq> ''succeeded'' then
            (Inl (Exc Exception (''Generation failed: '' @
                   (case pr_error pr of
                      None \<Rightarrow> ''Unknown error''
                    | Some None \<Rightarrow> ''None''
                    | Some (Some t) \<Rightarrow> t))), w1)
          else if pr_output pr = [] then
            (Inl (Exc Exception ''No output images generated''), w1)
          else
            (let images = download_all_outputs env (pr_output pr) in
             if images = [] then
               (Inl (Exc Exception ''Failed to download generated images''), w1)
             else
               (case upload_images env gid uid images job_message w1 of
                  (Inl e, w2) \<Rightarrow> (Inl e, w2)
                | (Inr blob_urls, w2) \<Rightarrow>
                    (case update_completion gid blob_urls pr w2 of
                       (Inl e, w3) \<Rightarrow> (Inl e, w3)
                     | (Inr u, w3) \<Rightarrow>
                         (Inr (),
                          case callback_url job_message of
                            None \<Rightarrow> w3
                          | Some url \<Rightarrow>
                              if url = [] then w3
                              else send_webhook_notification url gid w3)))))"

definition process_generation_job ::
  "env \<Rightarrow> GenerationJobMessage \<Rightarrow> ServiceBusMessage \<Rightarrow> world \<Rightarrow> bool \<times> world" where
  "process_generation_job env job_message raw_message w =
     (case process_try env job_message w of
        (Inr u, w') \<Rightarrow> (True, record_success w')
      | (Inl e, w') \<Rightarrow>
          (let (success, w'') = handle_job_failure job_message raw_message e w'
           in (success, record_failure w'')))"

text \<open>The callback \<open>_worker_loop\<close> passes to \<open>receive_messages\<close>.\<close>

definition worker_callback :: "env \<Rightarrow> callback" where
  "worker_callback env job_message message w =
     (let (success, w') = process_generation_job env job_message message w
      in (Inr success, w'))"

section \<open>The credit ledger (user\_repository.py, credit\_service.py)\<close>

text \<open>\<open>BaseRepository.find_by_id\<close> of a user repository.\<close>

definition find_user_by_id :: "collection \<Rightarrow> string \<Rightarrow> world \<Rightarrow> error + user_doc option" where
  "find_user_by_id coll uid w =
     (case coll of
        MongoDBServiceObject \<Rightarrow> Inl (no_attribute ''MongoDBService'' ''find_one'')
      | MotorCollection \<Rightarrow> Inr (users w uid))"

text \<open>
  \<open>find_one_and_update\<close> on the users collection with \<open>$inc\<close> of \<open>credits_remaining\<close> and
  \<open>$set\<close> of \<open>updated_at\<close>, as both ledger methods of the user repository call it.
\<close>

definition inc_credits_remaining ::
  "collection \<Rightarrow> string \<Rightarrow> int \<Rightarrow> world \<Rightarrow> (error + user_doc option) \<times> world" where
  "inc_credits_remaining coll uid delta w =
     (case coll of
        MongoDBServiceObject \<Rightarrow> (Inl (no_attribute ''MongoDBService'' ''find_one_and_update''), w)
      | MotorCollection \<Rightarrow>
          (case users w uid of
             None \<Rightarrow> (Inr None, w)
           | Some d \<Rightarrow>
               (let result = d\<lparr> u_credits_remaining := u_credits_remaining d + delta,
                                u_updated_at := clock w \<rparr>
                in (Inr (Some result), w\<lparr> users := (users w)(uid \<mapsto> result) \<rparr>))))"

text \<open>
  \<open>UserRepository.deduct_credits\<close>, the deduction of the submission endpoint: \<open>None\<close> for
  an unknown user, \<open>ValueError\<close> when the balance is too small, else \<open>$inc\<close> by
  \<open>-credits\<close>.
\<close>

definition deduct_credits_user ::
  "collection \<Rightarrow> string \<Rightarrow> int \<Rightarrow> world \<Rightarrow> (error + user_doc option) \<times> world" where
  "deduct_credits_user coll uid credits w =
     (case find_user_by_id coll uid w of
        Inl e \<Rightarrow> (Inl e, w)
      | Inr None \<Rightarrow> (Inr None, w)
      | Inr (Some user) \<Rightarrow>
          if u_credits_remaining user < credits then
            (Inl (Exc ValueError
                   (''Insufficient credits. Required: '' @ str_int credits @
                    '', Available: '' @ str_int (u_credits_remaining user))), w)
          else inc_credits_remaining coll uid (- credits) w)"

text \<open>
  \<open>UserRepository.add_credits\<close>, which the submission endpoint calls to give the credits
  back when the message cannot be enqueued.
\<close>

definition add_credits ::
  "collection \<Rightarrow> string \<Rightarrow> int \<Rightarrow> world \<Rightarrow> (error + user_doc option) \<times> world" where
  "add_credits coll uid credits w = inc_credits_remaining coll uid credits w"

text \<open>
  \<open>CreditService.deduct_credits\<close> and \<open>CreditService.refund_credits\<close> both begin with
  \<open>self.subscription_repo.get_by_user_id(user_id)\<close>. Neither \<open>SubscriptionRepository\<close>
  nor \<open>BaseRepository\<close> defines \<open>get_by_user_id\<close>, so the attribute lookup raises before
  anything is read or written, whatever the arguments.
\<close>

definition deduct_credits ::
  "string \<Rightarrow> int \<Rightarrow> string option \<Rightarrow> pydict option \<Rightarrow> world \<Rightarrow> (error + pydict) \<times> world" where
  "deduct_credits uid credits gid md w =
     (Inl (no_attribute ''SubscriptionRepository'' ''get_by_user_id''), w)"

definition refund_credits ::
  "string \<Rightarrow> int \<Rightarrow> string \<Rightarrow> string option \<Rightarrow> world \<Rightarrow> (error + pydict) \<times> world" where
  "refund_credits uid credits reason gid w =
     (Inl (no_attribute ''SubscriptionRepository'' ''get_by_user_id''), w)"

section \<open>Observations and sample data\<close>

text \<open>One field of one generation record, and the balance of one user.\<close>

definition field_of :: "string \<Rightarrow> string \<Rightarrow> world \<Rightarrow> val option" where
  "field_of gid k w = (case generations w gid of None \<Rightarrow> None | Some d \<Rightarrow> d k)"

definition balance_of :: "string \<Rightarrow> world \<Rightarrow> int option" where
  "balance_of uid w = map_option u_credits_remaining (users w uid)"

text \<open>
  A job, its broker message, its record (which cost two credits) and a world holding
  them, in which the user has 8 credits left; a provider that fails every call with the
  given exception, and one that succeeds with two outputs of which the first cannot be
  downloaded, over an object store that accepts every upload.
\<close>

definition example_job :: "int \<Rightarrow> GenerationJobMessage" where
  "example_job a =
     \<lparr> generation_id = ''gen-1'', user_id = ''user-1'', job_type = ''text_to_image'',
       prompt = ''a cat'', model = ''flux-schnell'', settings = [], callback_url = None,
       priority = ''normal'', attempt = a, created_at = 5, message_id = 7 \<rparr>"

definition example_message :: "int \<Rightarrow> ServiceBusMessage" where
  "example_message a =
     \<lparr> sb_message_id = 7, sb_body = to_json (example_job a),
       application_properties =
         [(''generation_id'', ''gen-1''), (''user_id'', ''user-1''),
          (''priority'', ''normal''), (''job_type'', ''text_to_image'')],
       scheduled_enqueue_time_utc = None \<rparr>"

definition example_record :: "string \<Rightarrow> document" where
  "example_record s =
     [''id'' \<mapsto> VStr ''gen-1'', ''user_id'' \<mapsto> VStr ''user-1'', ''status'' \<mapsto> VStr s,
      ''prompt'' \<mapsto> VStr ''a cat'', ''credits_used'' \<mapsto> VInt 2]"

definition example_world :: "document \<Rightarrow> world" where
  "example_world d =
     \<lparr> generations = [''gen-1'' \<mapsto> d],
       users = [''user-1'' \<mapsto> \<lparr> u_credits_remaining = 8, u_updated_at = 0 \<rparr>],
       blobs = [],
       queue = [], dead_letters = [], settlements = [], webhooks = [],
       metrics = \<lparr> jobs_processed = 0, jobs_succeeded = 0, jobs_failed = 0 \<rparr>,
       clock = 200, uuid_next = 8 \<rparr>"

definition failing_env :: "exc_kind \<Rightarrow> env" where
  "failing_env k =
     \<lparr> generate_and_wait = (\<lambda>p m s n. Inl (Exc k ''provider error'')),
       download_image = (\<lambda>url. Inl (Exc HTTPError ''404'')),
       blob_upload = (\<lambda>path img. Inl (Exc Exception ''upload failed'')) \<rparr>"

definition example_prediction :: prediction_result where
  "example_prediction =
     \<lparr> pr_status = ''succeeded'', pr_output = [''https://r/0.png'', ''https://r/1.png''],
       pr_error = None, pr_metrics = [], pr_time_ms = VNone \<rparr>"

definition succeeding_env :: env where
  "succeeding_env =
     \<lparr> generate_and_wait = (\<lambda>p m s n. Inr example_prediction),
       download_image = (\<lambda>url.
         if url = ''https://r/1.png'' then Inr (''bytes'', ''image/png'')
         else Inl (Exc HTTPError ''404'')),
       blob_upload = (\<lambda>path img. Inr (''https://blob/'' @ path, [])) \<rparr>"

text \<open>A record that was started at time 100 and has failed since.\<close>

definition retried_record :: document where
  "retried_record = (example_record ''failed'')(''started_at'' \<mapsto> VTime 100)"

text \<open>
  A callback that raises, a broker message with an arbitrary body, a world whose
  dead-letter queue holds the sample message at attempt 3, and the \<open>attempt\<close> a broker
  message carries in its body.
\<close>

definition raising_callback :: "exc_kind \<Rightarrow> callback" where
  "raising_callback k job_message message w = (Inl (Exc k ''callback failed''), w)"

definition bad_message :: "body \<Rightarrow> ServiceBusMessage" where
  "bad_message b =
     \<lparr> sb_message_id = 7, sb_body = b, application_properties = [],
       scheduled_enqueue_time_utc = None \<rparr>"

definition dlq_world :: world where
  "dlq_world = (example_world Map.empty)\<lparr> dead_letters := [example_message 3] \<rparr>"

definition wire_attempt :: "ServiceBusMessage \<Rightarrow> int option" where
  "wire_attempt m =
     (case sb_body m of
        JsonText (JsonObject d) \<Rightarrow> d_attempt d
      | JsonText JsonOther \<Rightarrow> None
      | BadText t \<Rightarrow> None)"

section \<open>Basic facts about the stores and the pipeline\<close>

lemma update_by_id_service_object:
  "update_by_id MongoDBServiceObject gid upd w =
     (Inl (no_attribute ''MongoDBService'' ''find_one_and_update''), w)"
  by (simp add: update_by_id_def Let_def)

lemma update_by_id_field:
  "generations w gid = Some d \<Longrightarrow>
   field_of gid k (snd (update_by_id MotorCollection gid upd w)) =
     (if k = ''updated_at'' then Some (VTime (clock w))
      else (case upd k of None \<Rightarrow> d k | Some v \<Rightarrow> Some v))"
  by (simp add: update_by_id_def field_of_def Let_def map_add_def split: option.splits)

lemma find_by_id_valid:
  "generations w gid = Some d \<Longrightarrow> Generation d = None \<Longrightarrow>
   find_by_id MotorCollection gid w = Inr (Some d)"
  by (simp add: find_by_id_def)

text \<open>As the worker is built, none of its writes to the generation record lands.\<close>

lemma update_status_worker_eq: "update_status_worker gid s additional w = w"
  by (simp add: update_status_worker_def generation_repo_def update_by_id_service_object Let_def)

lemma update_completion_eq:
  "update_completion gid bs pr w =
     (Inl (no_attribute ''MongoDBService'' ''find_one_and_update''), w)"
  by (simp add: update_completion_def generation_repo_def update_by_id_service_object Let_def)

lemma handle_job_failure_eq: "handle_job_failure job m e w = (False, w)"
  by (simp add: handle_job_failure_def update_status_worker_eq Let_def)

text \<open>The upload of an image always raises; it may have written its blobs before.\<close>

lemma upload_image_shape:
  "(\<exists>e. upload_image env uid gid filename data ct w = (Inl e, w)) \<or>
   (\<exists>r. upload_image env uid gid filename data ct w =
      (Inr r, w\<lparr> blobs := blobs w @ [get_blob_path uid gid (''thumb_'' @ filename),
                                         get_blob_path uid gid filename] \<rparr>))"
  by (simp add: upload_image_def Let_def split: sum.split prod.split)

lemma blobs_update_refl: "\<exists>bs. w = w\<lparr> blobs := bs \<rparr>"
  by (rule exI [of _ "blobs w"]) simp

lemma upload_try_shape:
  "\<exists>e bs. upload_try env gid uid idx img w = (Inl e, w\<lparr> blobs := bs \<rparr>)"
proof (cases img)
  case (Pair image_bytes content_type)
  let ?filename = "''output_'' @ str_nat idx @ ''.'' @ after_last_slash content_type"
  consider (raised) e where
      "upload_image env uid gid ?filename image_bytes content_type w = (Inl e, w)"
    | (returned) r bs where
      "upload_image env uid gid ?filename image_bytes content_type w = (Inr r, w\<lparr> blobs := bs \<rparr>)"
    using upload_image_shape [of env uid gid ?filename image_bytes content_type w] by blast
  then show ?thesis
  proof cases
    case raised
    then have "upload_try env gid uid idx img w = (Inl e, w)"
      unfolding Pair by (simp add: upload_try_def Let_def del: str_nat.simps)
    then show ?thesis
      using blobs_update_refl [of w] by metis
  next
    case returned
    then have "upload_try env gid uid idx img w =
        (Inl (Exc TypeError ''tuple indices must be integers or slices, not str''),
         w\<lparr> blobs := bs \<rparr>)"
      unfolding Pair by (simp add: upload_try_def Let_def del: str_nat.simps)
    then show ?thesis
      by blast
  qed
qed

lemma upload_loop_shape:
  "\<exists>bs. upload_loop env gid uid idx imgs acc w = (acc, w\<lparr> blobs := bs \<rparr>)"
proof (induction imgs arbitrary: idx w)
  case Nil
  show ?case
    using blobs_update_refl [of w] by simp
next
  case (Cons img imgs)
  obtain e bs where step: "upload_try env gid uid idx img w = (Inl e, w\<lparr> blobs := bs \<rparr>)"
    using upload_try_shape by blast
  obtain bs' where rest: "upload_loop env gid uid (idx + 1) imgs acc (w\<lparr> blobs := bs \<rparr>) =
      (acc, w\<lparr> blobs := bs' \<rparr>)"
    using Cons.IH [of "idx + 1" "w\<lparr> blobs := bs \<rparr>"] by auto
  show ?case
    using step rest by auto
qed

lemma upload_images_shape:
  "\<exists>bs. upload_images env gid uid imgs job w =
     (Inl (Exc Exception ''Failed to upload any images to blob storage''), w\<lparr> blobs := bs \<rparr>)"
proof -
  obtain bs where "upload_loop env gid uid 0 imgs [] w = ([], w\<lparr> blobs := bs \<rparr>)"
    using upload_loop_shape by blast
  then show ?thesis
    by (auto simp: upload_images_def)
qed

text \<open>So the try block always raises, and leaves the world as it was but for the blobs.\<close>

lemma process_try_shape:
  "\<exists>e bs. process_try env job w = (Inl e, w\<lparr> blobs := bs \<rparr>)"
proof -
  obtain bs0 where w: "w = w\<lparr> blobs := bs0 \<rparr>"
    using blobs_update_refl by blast
  have failed: "\<exists>e bs. (Inl e', w) = (Inl e, w\<lparr> blobs := bs \<rparr>)" for e' :: error
    using w by blast
  show ?thesis
  proof (cases "call_replicate_api env job")
    case (Inl e)
    then show ?thesis
      using failed by (simp add: process_try_def update_status_worker_eq Let_def)
  next
    case (Inr pr)
    obtain bs where up: "upload_images env (generation_id job) (user_id job)
        (download_all_outputs env (pr_output pr)) job w =
        (Inl (Exc Exception ''Failed to upload any images to blob storage''), w\<lparr> blobs := bs \<rparr>)"
      using upload_images_shape by blast
    show ?thesis
      using Inr up failed by (auto simp: process_try_def update_status_worker_eq Let_def)
  qed
qed

lemma process_generation_job_shape:
  "\<exists>bs. process_generation_job env job m w = (False, record_failure (w\<lparr> blobs := bs \<rparr>))"
  using process_try_shape [of env job w]
  by (auto simp: process_generation_job_def handle_job_failure_eq)

lemma process_generation_job_result:
  "fst (process_generation_job env job m w) =
     (case fst (process_try env job w) of Inl e \<Rightarrow> False | Inr u \<Rightarrow> True)"
  by (simp add: process_generation_job_def handle_job_failure_eq split: prod.splits sum.splits)

lemma process_generation_job_fails: "fst (process_generation_job env job m w) = False"
  using process_generation_job_shape [of env job m w] by auto

lemma process_generation_job_frame:
  "generations (snd (process_generation_job env job m w)) = generations w"
  "users (snd (process_generation_job env job m w)) = users w"
  "queue (snd (process_generation_job env job m w)) = queue w"
  "dead_letters (snd (process_generation_job env job m w)) = dead_letters w"
  "settlements (snd (process_generation_job env job m w)) = settlements w"
  "webhooks (snd (process_generation_job env job m w)) = webhooks w"
  "clock (snd (process_generation_job env job m w)) = clock w"
  "uuid_next (snd (process_generation_job env job m w)) = uuid_next w"
  using process_generation_job_shape [of env job m w]
  by (auto simp: record_failure_def)

lemma from_dict_frame:
  "generations (snd (from_dict j w)) = generations w"
  "users (snd (from_dict j w)) = users w"
  "blobs (snd (from_dict j w)) = blobs w"
  "webhooks (snd (from_dict j w)) = webhooks w"
  "settlements (snd (from_dict j w)) = settlements w"
  "dead_letters (snd (from_dict j w)) = dead_letters w"
  "queue (snd (from_dict j w)) = queue w"
  "clock (snd (from_dict j w)) = clock w"
  by (cases j; simp add: GenerationJobMessage_init_def split: option.splits)+

lemma from_dict_error:
  "from_dict j w = (Inl e, w') \<Longrightarrow> w' = w \<and> (kind_of e = KeyError \<or> kind_of e = TypeError)"
  by (cases j) (auto simp: GenerationJobMessage_init_def split: option.splits)

lemma settle_frame:
  "generations (complete_message m w) = generations w"
  "users (complete_message m w) = users w"
  "generations (abandon_message m p w) = generations w"
  "users (abandon_message m p w) = users w"
  "generations (dead_letter_message m r t w) = generations w"
  "users (dead_letter_message m r t w) = users w"
  by (simp_all add: complete_message_def abandon_message_def dead_letter_message_def)

lemma worker_callback_eq:
  "worker_callback env job m w =
     (Inr (fst (process_generation_job env job m w)), snd (process_generation_job env job m w))"
  by (simp add: worker_callback_def split_beta)

text \<open>
  Whatever messages are delivered to the worker, and however often, no generation record
  and no user document changes.
\<close>

lemma receive_try_worker_frame:
  "generations (snd (snd (receive_try (Some (worker_callback env)) m acc w))) = generations w \<and>
   users (snd (snd (receive_try (Some (worker_callback env)) m acc w))) = users w"
proof (cases "json_loads (sb_body m)")
  case (Inl e)
  then show ?thesis by (simp add: receive_try_def)
next
  case (Inr j)
  show ?thesis
  proof (cases "from_dict j w")
    case (Pair r w1)
    have w1: "generations w1 = generations w" "users w1 = users w"
      using from_dict_frame [of j w] Pair by simp_all
    show ?thesis
    proof (cases r)
      case (Inl e)
      then show ?thesis using Inr Pair w1 by (simp add: receive_try_def)
    next
      case job: (Inr job)
      show ?thesis
        using Inr Pair job w1 process_generation_job_frame [of env job m w1]
        by (simp add: receive_try_def worker_callback_eq settle_frame)
    qed
  qed
qed

lemma receive_loop_worker_frame:
  "generations (snd (receive_loop (Some (worker_callback env)) mx ms acc w)) = generations w \<and>
   users (snd (receive_loop (Some (worker_callback env)) mx ms acc w)) = users w"
proof (induction ms arbitrary: acc w)
  case Nil
  show ?case by simp
next
  case (Cons m ms)
  obtain r acc' w' where step: "receive_try (Some (worker_callback env)) m acc w = (r, acc', w')"
    by (cases "receive_try (Some (worker_callback env)) m acc w") auto
  have w': "generations w' = generations w \<and> users w' = users w"
    using receive_try_worker_frame [of env m acc w] step by simp
  show ?case
    using step w' Cons.IH [of acc' w']
      Cons.IH [of acc' "dead_letter_message m ''ProcessingError'' (str_of (projl r)) w'"]
    by (cases r) (auto simp: settle_frame)
qed

lemma receive_messages_worker_frame:
  "generations (snd (receive_messages mx (Some (worker_callback env)) ms w)) = generations w \<and>
   users (snd (receive_messages mx (Some (worker_callback env)) ms w)) = users w"
  by (simp add: receive_messages_def receive_loop_worker_frame)

lemma from_dict_to_dict:
  "from_dict (JsonObject (to_dict m)) w =
     (Inr (m\<lparr> created_at := clock w, message_id := uuid_next w \<rparr>),
      w\<lparr> uuid_next := uuid_next w + 1 \<rparr>)"
  by (simp add: to_dict_def GenerationJobMessage_init_def)

lemma json_loads_to_json: "json_loads (to_json m) = Inr (JsonObject (to_dict m))"
  by (simp add: to_json_def json_dumps_def)

lemma receive_single_worker:
  assumes "json_loads (sb_body m) = Inr j" and "from_dict j w = (Inr job, w1)"
  shows "receive_messages mx (Some (worker_callback env)) [m] w =
           ([], if fst (process_generation_job env job m w1)
                then complete_message m (snd (process_generation_job env job m w1))
                else abandon_message m None (snd (process_generation_job env job m w1)))"
  using assms
  by (simp add: receive_messages_def receive_try_def worker_callback_eq)

lemma process_try_call_failed:
  "call_replicate_api env job = Inl e \<Longrightarrow> \<exists>w'. process_try env job w = (Inl e, w')"
  by (simp add: process_try_def Let_def)

lemma call_replicate_api_failing:
  "call_replicate_api (failing_env k) job = Inl (Exc RetryError ''RetryError[provider error]'')"
  by (simp add: call_replicate_api_def failing_env_def)

lemma call_replicate_api_all_failed:
  assumes "generate_and_wait env (prompt job) (model job) (settings job) 0 = Inl e0"
    and "generate_and_wait env (prompt job) (model job) (settings job) 1 = Inl e1"
    and "generate_and_wait env (prompt job) (model job) (settings job) 2 = Inl e2"
  shows "call_replicate_api env job = Inl (Exc RetryError (''RetryError['' @ str_of e2 @ '']''))"
  using assms by (simp add: call_replicate_api_def)

lemma generations_example_world:
  "generations (example_world d) ''gen-1'' = Some d"
  by (simp add: example_world_def)

lemma example_failed_run:
  fixes a k d
  defines "w1 \<equiv> (example_world d)\<lparr> uuid_next := 9 \<rparr>"
  defines "job \<equiv> (example_job a)\<lparr> created_at := 200, message_id := 8 \<rparr>"
  shows "receive_messages 1 (Some (worker_callback (failing_env k))) [example_message a]
           (example_world d) =
         ([], abandon_message (example_message a) None
                (snd (process_generation_job (failing_env k) job (example_message a) w1)))"
    and "\<not> fst (process_generation_job (failing_env k) job (example_message a) w1)"
proof -
  have parse: "from_dict (JsonObject (to_dict (example_job a))) (example_world d) = (Inr job, w1)"
    unfolding from_dict_to_dict by (simp add: job_def w1_def example_world_def)
  have body: "json_loads (sb_body (example_message a)) = Inr (JsonObject (to_dict (example_job a)))"
    by (simp add: example_message_def json_loads_to_json)
  show failed: "\<not> fst (process_generation_job (failing_env k) job (example_message a) w1)"
    using process_try_call_failed [OF call_replicate_api_failing, of k job w1]
    by (auto simp: process_generation_job_result)
  show "receive_messages 1 (Some (worker_callback (failing_env k))) [example_message a]
           (example_world d) =
         ([], abandon_message (example_message a) None
                (snd (process_generation_job (failing_env k) job (example_message a) w1)))"
    using receive_single_worker [OF body parse, of 1 "failing_env k"] failed by simp
qed

lemma receive_failed_job:
  assumes "json_loads (sb_body m) = Inr j" and "from_dict j w = (Inr job, w1)"
    and "\<not> fst (process_generation_job env job m w1)"
  shows "settlements (snd (receive_messages mx (Some (worker_callback env)) [m] w)) =
           settlements w @ [Abandon (sb_message_id m) None]"
proof -
  have "settlements w1 = settlements w"
    using from_dict_frame(5) [of j w] assms(2) by simp
  then show ?thesis
    unfolding receive_single_worker [OF assms(1,2)]
    using assms(3) by (simp add: abandon_message_def process_generation_job_frame)
qed

section \<open>The deduction fails closed\<close>

text \<open>
  Over the \<open>MongoDBService\<close> object, which is what the submission endpoint builds its
  user repository over, the deduction raises at its first lookup and changes nothing;
  and the ledger service's own deduction and refund raise before they read anything.
\<close>

lemma deduct_credits_user_service_object:
  "deduct_credits_user MongoDBServiceObject uid amount w =
     (Inl (no_attribute ''MongoDBService'' ''find_one''), w)"
  by (simp add: deduct_credits_user_def find_user_by_id_def)

lemma credit_service_raises:
  "kind_of (projl (fst (deduct_credits uid amount gid md w))) = AttributeError"
  "snd (deduct_credits uid amount gid md w) = w"
  "kind_of (projl (fst (refund_credits uid amount reason gid w))) = AttributeError"
  "snd (refund_credits uid amount reason gid w) = w"
  by (simp_all add: deduct_credits_def refund_credits_def no_attribute_def)




section \<open>Failure handling never touches the ledger\<close>

text \<open>
  Claim C1 does not hold of the code. The sample job cost two credits, which left its
  user 8; it is delivered at attempt 3, which is \<open>max_retries\<close>, and the provider fails
  every call. The job returns \<open>False\<close> through the branch for exhausted retries, and the
  user's balance is still 8 after it, also when the same message is delivered and fails
  twice: no refund is issued. The record's status is not \<open>failed\<close> either, since the
  write of the failure handler does not land.
\<close>

theorem failed_job_gets_no_refund:
  "max_retries \<le> attempt (example_job 3) \<and>
   field_of ''gen-1'' ''credits_used'' (example_world (example_record ''processing'')) =
     Some (VInt 2) \<and>
   balance_of ''user-1'' (example_world (example_record ''processing'')) = Some 8 \<and>
   fst (process_generation_job (failing_env ReplicateAPIError) (example_job 3)
          (example_message 3) (example_world (example_record ''processing''))) = False \<and>
   balance_of ''user-1''
     (snd (process_generation_job (failing_env ReplicateAPIError) (example_job 3)
             (example_message 3) (example_world (example_record ''processing'')))) = Some 8 \<and>
   balance_of ''user-1''
     (snd (receive_messages 2 (Some (worker_callback (failing_env ReplicateAPIError)))
             [example_message 3, example_message 3]
             (example_world (example_record ''processing'')))) = Some 8 \<and>
   field_of ''gen-1'' ''status''
     (snd (receive_messages 2 (Some (worker_callback (failing_env ReplicateAPIError)))
             [example_message 3, example_message 3]
             (example_world (example_record ''processing'')))) = Some (VStr ''processing'')"
proof -
  let ?w = "example_world (example_record ''processing'')"
  have w: "balance_of ''user-1'' ?w = Some 8"
      "field_of ''gen-1'' ''credits_used'' ?w = Some (VInt 2)"
      "field_of ''gen-1'' ''status'' ?w = Some (VStr ''processing'')"
    by (simp_all add: balance_of_def field_of_def example_world_def example_record_def)
  have frame: "balance_of uid (snd (receive_messages mx (Some (worker_callback env)) ms ?w)) =
        balance_of uid ?w"
      "field_of gid k (snd (receive_messages mx (Some (worker_callback env)) ms ?w)) =
        field_of gid k ?w"
      "balance_of uid (snd (process_generation_job env job m ?w)) = balance_of uid ?w"
    for uid gid k mx env ms job m
    by (simp_all add: balance_of_def field_of_def receive_messages_worker_frame
          process_generation_job_frame)
  show ?thesis
    unfolding frame w
    by (simp add: process_generation_job_fails max_retries_def example_job_def)
qed

section \<open>Retry and dead-letter policy\<close>

text \<open>
  Claim C2, as amended. When the processing of a leased message fails, whatever its
  attempt counter, the failure handler returns \<open>False\<close>, the job returns \<open>False\<close>, and the
  receive operation makes exactly one settlement call on the message: \<open>abandon_message\<close>
  without properties. It calls neither \<open>complete_message\<close> nor \<open>dead_letter_message\<close>.
\<close>

theorem failed_job_is_abandoned:
  assumes "json_loads (sb_body m) = Inr j" and "from_dict j w = (Inr job, w1)"
    and "process_try env job w1 = (Inl e, w2)"
  shows "fst (handle_job_failure job m e w2) = False \<and>
         fst (process_generation_job env job m w1) = False \<and>
         settlements (snd (receive_messages mx (Some (worker_callback env)) [m] w)) =
           settlements w @ [Abandon (sb_message_id m) None]"
proof -
  have failed: "\<not> fst (process_generation_job env job m w1)"
    using assms(3) by (simp add: process_generation_job_result)
  show ?thesis
    using failed receive_failed_job [OF assms(1,2) failed]
    by (simp add: handle_job_failure_eq)
qed

theorem failed_job_is_abandoned_witness:
  "settlements (snd (receive_messages 1 (Some (worker_callback (failing_env ReplicateAPIError)))
       [example_message 1] (example_world (example_record ''pending'')))) = [Abandon 7 None]"
proof -
  let ?w = "example_world (example_record ''pending'')"
  let ?w1 = "?w\<lparr> uuid_next := 9 \<rparr>"
  let ?job = "(example_job 1)\<lparr> created_at := 200, message_id := 8 \<rparr>"
  have body: "json_loads (sb_body (example_message 1)) = Inr (JsonObject (to_dict (example_job 1)))"
    by (simp add: example_message_def json_loads_to_json)
  have parse: "from_dict (JsonObject (to_dict (example_job 1))) ?w = (Inr ?job, ?w1)"
    unfolding from_dict_to_dict by (simp add: example_world_def)
  obtain w2 where run: "process_try (failing_env ReplicateAPIError) ?job ?w1 =
      (Inl (Exc RetryError ''RetryError[provider error]''), w2)"
    using process_try_call_failed [OF call_replicate_api_failing] by blast
  show ?thesis
    using failed_job_is_abandoned [OF body parse run, where mx = 1]
    by (simp add: example_world_def example_message_def)
qed

text \<open>
  Claim C2 as stated fails: a message at attempt 3 (\<open>max_retries\<close>) whose processing fails
  is abandoned, not dead-lettered.
\<close>

theorem dead_letter_counterexample:
  "max_retries \<le> attempt (example_job 3) \<and>
   settlements (snd (receive_messages 1 (Some (worker_callback (failing_env ReplicateAPIError)))
       [example_message 3] (example_world (example_record ''processing'')))) = [Abandon 7 None]"
  unfolding example_failed_run(1)
  by (simp add: abandon_message_def process_generation_job_frame
        max_retries_def example_job_def example_message_def example_world_def)

section \<open>Status transitions\<close>

text \<open>
  Claim C3, as amended. Over the generations collection the repository does not guard a
  status update on the record's current status: \<open>update_by_id\<close> filters on the id alone
  and stores every field it is given, and \<open>update_status\<close> adds no condition, so on a
  stored record (one that passes validation, for the lookup that \<open>update_status\<close> makes
  before it writes \<open>completed\<close> or \<open>failed\<close>) each stores the status it is given, whatever
  the current status.
\<close>

theorem repository_status_update_is_unconditional:
  assumes "generations w gid = Some d" and "Generation d = None" and "kwargs ''status'' = None"
  shows "field_of gid ''status'' (snd (update_status MotorCollection gid status kwargs w)) =
           Some (VStr (status_value status)) \<and>
         field_of gid ''status''
           (snd (update_by_id MotorCollection gid (upd(''status'' \<mapsto> VStr (status_value status))) w)) =
           Some (VStr (status_value status))"
proof -
  have "field_of gid ''status'' (snd (update_status MotorCollection gid status kwargs w)) =
      Some (VStr (status_value status))"
    using assms(3)
    by (cases status)
       (simp_all add: update_status_def find_by_id_valid [OF assms(1,2)]
          update_by_id_field [OF assms(1)] map_add_def Let_def split: option.splits val.splits)
  then show ?thesis
    by (simp add: update_by_id_field [OF assms(1)])
qed

lemma Generation_example_record:
  "s \<in> set [''pending'', ''processing'', ''completed'', ''failed'', ''cancelled''] \<Longrightarrow>
   Generation (example_record s) = None"
  by (simp add: Generation_def example_record_def required_def has_default_def)

theorem repository_status_update_is_unconditional_witness:
  "field_of ''gen-1'' ''status''
     (snd (update_status MotorCollection ''gen-1'' FAILED Map.empty
        (example_world (example_record ''completed'')))) = Some (VStr ''failed'') \<and>
   field_of ''gen-1'' ''status''
     (snd (update_by_id MotorCollection ''gen-1'' [''status'' \<mapsto> VStr ''failed'']
        (example_world (example_record ''completed'')))) = Some (VStr ''failed'')"
  using repository_status_update_is_unconditional
    [where w = "example_world (example_record ''completed'')" and gid = "''gen-1''"
       and d = "example_record ''completed''" and kwargs = Map.empty and status = FAILED
       and upd = Map.empty]
  by (simp add: generations_example_world Generation_example_record)

text \<open>
  Claim C3 as stated fails: a record whose status is \<open>completed\<close> accepts the next status
  update; after \<open>update_status\<close> with \<open>processing\<close> its status is \<open>processing\<close>.
\<close>

theorem completed_record_counterexample:
  "field_of ''gen-1'' ''status'' (example_world (example_record ''completed'')) =
     Some (VStr ''completed'') \<and>
   field_of ''gen-1'' ''status''
     (snd (update_status MotorCollection ''gen-1'' PROCESSING Map.empty
        (example_world (example_record ''completed'')))) = Some (VStr ''processing'')"
  by (simp add: update_status_def update_by_id_field [OF generations_example_world] Let_def)
     (simp add: field_of_def example_world_def example_record_def)

section \<open>Provider rate limits\<close>

text \<open>
  Claim C4, as amended. A job whose three tries of the provider call all raise the
  rate-limit error is handled like any other failure: the retry decorator gives up with
  \<open>RetryError\<close>, the failure handler does for the rate-limit error what it does for an
  exception of any other class with the same text, the job returns \<open>False\<close>, the message
  is abandoned with no properties (no backoff hint), and no user document changes.
\<close>

theorem rate_limit_failure_is_abandoned:
  assumes "json_loads (sb_body m) = Inr j" and "from_dict j w = (Inr job, w1)"
    and "generate_and_wait env (prompt job) (model job) (settings job) 0 =
           Inl (Exc ReplicateRateLimitError t0)"
    and "generate_and_wait env (prompt job) (model job) (settings job) 1 =
           Inl (Exc ReplicateRateLimitError t1)"
    and "generate_and_wait env (prompt job) (model job) (settings job) 2 =
           Inl (Exc ReplicateRateLimitError t2)"
  shows "call_replicate_api env job = Inl (Exc RetryError (''RetryError['' @ t2 @ '']'')) \<and>
         handle_job_failure job m (Exc ReplicateRateLimitError t) w2 =
           handle_job_failure job m (Exc k t) w2 \<and>
         fst (process_generation_job env job m w1) = False \<and>
         settlements (snd (receive_messages mx (Some (worker_callback env)) [m] w)) =
           settlements w @ [Abandon (sb_message_id m) None] \<and>
         users (snd (receive_messages mx (Some (worker_callback env)) [m] w)) = users w"
proof -
  have call: "call_replicate_api env job = Inl (Exc RetryError (''RetryError['' @ t2 @ '']''))"
    using call_replicate_api_all_failed [OF assms(3,4,5)] by simp
  have "\<exists>w'. process_try env job w1 = (Inl (Exc RetryError (''RetryError['' @ t2 @ '']'')), w')"
    using process_try_call_failed [OF call] by simp
  then have failed: "\<not> fst (process_generation_job env job m w1)"
    by (auto simp: process_generation_job_result)
  have same: "handle_job_failure job m (Exc ReplicateRateLimitError t) w2 =
      handle_job_failure job m (Exc k t) w2"
    by (simp add: handle_job_failure_def)
  show ?thesis
    using call same failed receive_failed_job [OF assms(1,2) failed]
      receive_messages_worker_frame [of mx env "[m]" w]
    by simp
qed

theorem rate_limit_failure_is_abandoned_witness:
  "call_replicate_api (failing_env ReplicateRateLimitError)
     ((example_job 2)\<lparr> created_at := 200, message_id := 8 \<rparr>) =
     Inl (Exc RetryError ''RetryError[provider error]'') \<and>
   settlements (snd (receive_messages 1 (Some (worker_callback (failing_env ReplicateRateLimitError)))
       [example_message 2] (example_world (example_record ''processing'')))) = [Abandon 7 None] \<and>
   balance_of ''user-1''
     (snd (receive_messages 1 (Some (worker_callback (failing_env ReplicateRateLimitError)))
       [example_message 2] (example_world (example_record ''processing'')))) = Some 8"
proof -
  let ?w = "example_world (example_record ''processing'')"
  let ?w1 = "?w\<lparr> uuid_next := 9 \<rparr>"
  let ?job = "(example_job 2)\<lparr> created_at := 200, message_id := 8 \<rparr>"
  have body: "json_loads (sb_body (example_message 2)) = Inr (JsonObject (to_dict (example_job 2)))"
    by (simp add: example_message_def json_loads_to_json)
  have parse: "from_dict (JsonObject (to_dict (example_job 2))) ?w = (Inr ?job, ?w1)"
    unfolding from_dict_to_dict by (simp add: example_world_def)
  have call: "generate_and_wait (failing_env ReplicateRateLimitError) (prompt ?job) (model ?job)
      (settings ?job) n = Inl (Exc ReplicateRateLimitError ''provider error'')" for n
    by (simp add: failing_env_def)
  show ?thesis
    using rate_limit_failure_is_abandoned [OF body parse call call call, where mx = 1]
    by (simp add: balance_of_def example_world_def example_message_def)
qed

text \<open>
  Claim C4 as stated fails: a rate-limit failure at attempt 2 is settled exactly as a
  failure of another class is, by an abandon call that modifies no property of the
  message, so it carries no backoff hint.
\<close>

theorem rate_limit_counterexample:
  "settlements (snd (receive_messages 1 (Some (worker_callback (failing_env ReplicateRateLimitError)))
       [example_message 2] (example_world (example_record ''processing'')))) = [Abandon 7 None] \<and>
   settlements (snd (receive_messages 1 (Some (worker_callback (failing_env ReplicateAPIError)))
       [example_message 2] (example_world (example_record ''processing'')))) = [Abandon 7 None]"
  unfolding example_failed_run(1)
  by (simp add: abandon_message_def process_generation_job_frame
        example_message_def example_world_def)

section \<open>The start timestamp\<close>

text \<open>
  Claim C8, as amended. Over the generations collection, \<open>update_status\<close> with
  \<open>processing\<close> stamps \<open>started_at\<close> with the current time on every stored record,
  whatever the record and the other fields passed: at the first transition to
  \<open>processing\<close> and at every later one.
\<close>

theorem repository_restamps_started_at:
  assumes "generations w gid = Some d"
  shows "field_of gid ''started_at'' (snd (update_status MotorCollection gid PROCESSING kwargs w)) =
           Some (VTime (clock w))"
  by (simp add: update_status_def update_by_id_field [OF assms] Let_def)

theorem repository_restamps_started_at_witness:
  "field_of ''gen-1'' ''started_at'' (example_world (example_record ''pending'')) = None \<and>
   field_of ''gen-1'' ''started_at''
     (snd (update_status MotorCollection ''gen-1'' PROCESSING Map.empty
        (example_world (example_record ''pending'')))) = Some (VTime 200)"
  using repository_restamps_started_at
    [where w = "example_world (example_record ''pending'')" and gid = "''gen-1''"
       and d = "example_record ''pending''" and kwargs = Map.empty]
  by (simp add: field_of_def example_world_def example_record_def)

text \<open>
  Claim C8 as stated fails: a record first started at time 100 that re-enters
  \<open>processing\<close> at time 200 has \<open>started_at\<close> 200.
\<close>

theorem started_at_counterexample:
  "field_of ''gen-1'' ''started_at'' (example_world retried_record) = Some (VTime 100) \<and>
   clock (example_world retried_record) = 200 \<and>
   field_of ''gen-1'' ''started_at''
     (snd (update_status MotorCollection ''gen-1'' PROCESSING Map.empty
        (example_world retried_record))) = Some (VTime 200)"
  by (simp add: update_status_def update_by_id_field [OF generations_example_world] Let_def)
     (simp add: field_of_def example_world_def retried_record_def)

section \<open>The wire format\<close>

text \<open>
  Claim C9, as amended. Deserializing the serialized form of a message \<open>m\<close> gives \<open>m\<close>
  with every field but two preserved (\<open>generation_id\<close>, \<open>user_id\<close>, \<open>job_type\<close>, \<open>prompt\<close>,
  \<open>model\<close>, \<open>settings\<close>, \<open>callback_url\<close>, \<open>priority\<close>, \<open>attempt\<close>); \<open>created_at\<close> is the
  clock reading at deserialization and \<open>message_id\<close> a newly drawn token. \<open>from_json\<close> of
  \<open>to_json\<close> is \<open>from_dict\<close> of \<open>to_dict\<close>.
\<close>

theorem roundtrip_regenerates_identity:
  "from_dict (JsonObject (to_dict m)) w =
     (Inr (m\<lparr> created_at := clock w, message_id := uuid_next w \<rparr>),
      w\<lparr> uuid_next := uuid_next w + 1 \<rparr>) \<and>
   from_json (to_json m) w = from_dict (JsonObject (to_dict m)) w"
  by (simp only: from_dict_to_dict from_json_def json_loads_to_json sum.case simp_thms)

text \<open>
  Claim C9 as stated fails: the sample message has \<open>message_id\<close> 7 and \<open>created_at\<close> 5;
  its round trip in a world at time 200 whose next token is 8 has 8 and 200.
\<close>

theorem roundtrip_counterexample:
  "message_id (example_job 1) = 7 \<and> created_at (example_job 1) = 5 \<and>
   map_sum id message_id (fst (from_json (to_json (example_job 1)) (example_world Map.empty))) = Inr 8 \<and>
   map_sum id created_at (fst (from_json (to_json (example_job 1)) (example_world Map.empty))) = Inr 200"
  by (simp add: from_json_def json_loads_to_json from_dict_to_dict example_job_def example_world_def
        del: from_dict.simps)

section \<open>Messages that cannot be processed\<close>

text \<open>
  Claim C10, as amended. A delivered message whose body is not JSON, or whose body lacks
  a required field (or is not an object), or whose callback raises an exception other
  than \<open>MessageLockLostError\<close>, gets exactly one settlement call,
  \<open>dead_letter_message\<close> with reason \<open>ProcessingError\<close> and the exception's text; it is
  neither completed nor abandoned, whatever its attempt counter, and the loop goes on
  with the messages after it.
\<close>

theorem unprocessable_message_is_dead_lettered:
  "(json_loads (sb_body m) = Inl e \<longrightarrow>
      receive_messages mx cb (m # rest) w =
        receive_loop cb mx rest [] (dead_letter_message m ''ProcessingError'' (str_of e) w)) \<and>
   (json_loads (sb_body m) = Inr j \<and> from_dict j w = (Inl e, w1) \<longrightarrow>
      receive_messages mx cb (m # rest) w =
        receive_loop cb mx rest [] (dead_letter_message m ''ProcessingError'' (str_of e) w)) \<and>
   (json_loads (sb_body m) = Inr j \<and> from_dict j w = (Inr job, w1) \<and>
    f job m w1 = (Inl e, w2) \<and> kind_of e \<noteq> MessageLockLostError \<longrightarrow>
      receive_messages mx (Some f) (m # rest) w =
        receive_loop (Some f) mx rest [] (dead_letter_message m ''ProcessingError'' (str_of e) w2))"
proof (intro conjI impI)
  assume "json_loads (sb_body m) = Inl e"
  moreover have "kind_of e = JSONDecodeError" if "json_loads (sb_body m) = Inl e"
    using that by (cases "sb_body m") auto
  ultimately show "receive_messages mx cb (m # rest) w =
      receive_loop cb mx rest [] (dead_letter_message m ''ProcessingError'' (str_of e) w)"
    by (simp add: receive_messages_def receive_try_def)
next
  assume a: "json_loads (sb_body m) = Inr j \<and> from_dict j w = (Inl e, w1)"
  then have "w1 = w" and "kind_of e \<noteq> MessageLockLostError"
    using from_dict_error [of j w e w1] by auto
  then show "receive_messages mx cb (m # rest) w =
      receive_loop cb mx rest [] (dead_letter_message m ''ProcessingError'' (str_of e) w)"
    using a by (simp add: receive_messages_def receive_try_def)
next
  assume "json_loads (sb_body m) = Inr j \<and> from_dict j w = (Inr job, w1) \<and>
    f job m w1 = (Inl e, w2) \<and> kind_of e \<noteq> MessageLockLostError"
  then show "receive_messages mx (Some f) (m # rest) w =
      receive_loop (Some f) mx rest [] (dead_letter_message m ''ProcessingError'' (str_of e) w2)"
    by (simp add: receive_messages_def receive_try_def)
qed

theorem unprocessable_message_is_dead_lettered_witness:
  "settlements (snd (receive_messages 1 (Some (worker_callback (failing_env ReplicateAPIError)))
       [bad_message (BadText ''not json'')] (example_world Map.empty))) =
     [DeadLetter 7 ''ProcessingError'' ''Expecting value''] \<and>
   settlements (snd (receive_messages 1 (Some (worker_callback (failing_env ReplicateAPIError)))
       [bad_message (JsonText (JsonObject ((to_dict (example_job 5))\<lparr> d_generation_id := None \<rparr>)))]
       (example_world Map.empty))) =
     [DeadLetter 7 ''ProcessingError'' ''generation_id''] \<and>
   settlements (snd (receive_messages 1 (Some (raising_callback ValueError))
       [example_message 5] (example_world Map.empty))) =
     [DeadLetter 7 ''ProcessingError'' ''callback failed'']"
proof -
  let ?w = "example_world Map.empty"
  let ?cb = "Some (worker_callback (failing_env ReplicateAPIError))"
  let ?d = "(to_dict (example_job 5))\<lparr> d_generation_id := None \<rparr>"
  have a: "json_loads (sb_body (bad_message (BadText ''not json''))) =
      Inl (Exc JSONDecodeError ''Expecting value'')"
    by (simp add: bad_message_def)
  have b: "json_loads (sb_body (bad_message (JsonText (JsonObject ?d)))) = Inr (JsonObject ?d) \<and>
      from_dict (JsonObject ?d) ?w = (Inl (Exc KeyError ''generation_id''), ?w)"
    by (simp add: bad_message_def)
  have c: "json_loads (sb_body (example_message 5)) = Inr (JsonObject (to_dict (example_job 5))) \<and>
      from_dict (JsonObject (to_dict (example_job 5))) ?w =
        (Inr ((example_job 5)\<lparr> created_at := clock ?w, message_id := uuid_next ?w \<rparr>),
         ?w\<lparr> uuid_next := uuid_next ?w + 1 \<rparr>) \<and>
      raising_callback ValueError
        ((example_job 5)\<lparr> created_at := clock ?w, message_id := uuid_next ?w \<rparr>)
        (example_message 5) (?w\<lparr> uuid_next := uuid_next ?w + 1 \<rparr>) =
        (Inl (Exc ValueError ''callback failed''), ?w\<lparr> uuid_next := uuid_next ?w + 1 \<rparr>) \<and>
      kind_of (Exc ValueError ''callback failed'') \<noteq> MessageLockLostError"
    by (simp only: from_dict_to_dict json_loads_to_json)
       (simp add: example_message_def json_loads_to_json raising_callback_def)
  have r1: "receive_messages 1 ?cb [bad_message (BadText ''not json'')] ?w =
      receive_loop ?cb 1 [] [] (dead_letter_message (bad_message (BadText ''not json'')) ''ProcessingError''
             (str_of (Exc JSONDecodeError ''Expecting value'')) ?w)"
    using unprocessable_message_is_dead_lettered
      [where m = "bad_message (BadText ''not json'')"
         and e = "Exc JSONDecodeError ''Expecting value''" and mx = 1 and cb = ?cb and w = ?w
         and rest = "[]"]
      a by blast
  have r2: "receive_messages 1 ?cb [bad_message (JsonText (JsonObject ?d))] ?w =
      receive_loop ?cb 1 [] [] (dead_letter_message (bad_message (JsonText (JsonObject ?d))) ''ProcessingError''
             (str_of (Exc KeyError ''generation_id'')) ?w)"
    using unprocessable_message_is_dead_lettered
      [where m = "bad_message (JsonText (JsonObject ?d))" and e = "Exc KeyError ''generation_id''"
         and mx = 1 and cb = ?cb and w = ?w and j = "JsonObject ?d" and ?w1.0 = ?w
         and rest = "[]"]
      b by blast
  have r3: "receive_messages 1 (Some (raising_callback ValueError)) [example_message 5] ?w =
      receive_loop (Some (raising_callback ValueError)) 1 [] [] (dead_letter_message (example_message 5) ''ProcessingError''
             (str_of (Exc ValueError ''callback failed'')) (?w\<lparr> uuid_next := uuid_next ?w + 1 \<rparr>))"
    using unprocessable_message_is_dead_lettered
      [where m = "example_message 5" and e = "Exc ValueError ''callback failed''" and mx = 1
         and w = ?w and j = "JsonObject (to_dict (example_job 5))"
         and job = "(example_job 5)\<lparr> created_at := clock ?w, message_id := uuid_next ?w \<rparr>"
         and ?w1.0 = "?w\<lparr> uuid_next := uuid_next ?w + 1 \<rparr>"
         and f = "raising_callback ValueError"
         and ?w2.0 = "?w\<lparr> uuid_next := uuid_next ?w + 1 \<rparr>" and rest = "[]"]
      c by blast
  show ?thesis
    unfolding r1 r2 r3
    by (simp add: dead_letter_message_def bad_message_def example_message_def example_world_def)
qed

text \<open>
  Claim C10 as stated fails: when the callback raises \<open>MessageLockLostError\<close> the message
  is not settled at all, so it is not dead-lettered.
\<close>

theorem lock_lost_counterexample:
  "settlements (snd (receive_messages 1 (Some (raising_callback MessageLockLostError))
       [example_message 1] (example_world Map.empty))) = [] \<and>
   dead_letters (snd (receive_messages 1 (Some (raising_callback MessageLockLostError))
       [example_message 1] (example_world Map.empty))) = []"
  by (simp add: receive_messages_def receive_try_def example_message_def json_loads_to_json
        from_dict_to_dict raising_callback_def example_world_def del: from_dict.simps)

section \<open>Resubmission from the dead-letter queue\<close>

lemma resubmit_loop_found:
  assumes "sb_message_id m = mid" and "sb_body m = to_json job0"
  shows "fst (resubmit_loop mid (m # rest) w) = Inr True \<and>
         queue (snd (resubmit_loop mid (m # rest) w)) = queue w @
           [\<lparr> sb_message_id = uuid_next w + 1,
              sb_body = to_json (job0\<lparr> attempt := 1, created_at := clock w,
                                        message_id := uuid_next w + 1 \<rparr>),
              application_properties =
                [(''generation_id'', generation_id job0), (''user_id'', user_id job0),
                 (''priority'', priority job0), (''job_type'', job_type job0)],
              scheduled_enqueue_time_utc = None \<rparr>]"
  using assms
  by (cases job0)
     (simp add: json_loads_to_json from_dict_to_dict send_generation_request_def
        GenerationJobMessage_init_def complete_message_def Let_def del: from_dict.simps)

text \<open>
  Claim C6 does not hold of the code: resubmitting the dead-lettered sample message,
  which carries attempt 3, returns \<open>True\<close> and enqueues a message that carries attempt 1,
  not 4.
\<close>

theorem resubmit_resets_attempt:
  "map wire_attempt (dead_letters dlq_world) = [Some 3] \<and>
   fst (resubmit_dead_letter_message 7 dlq_world) = True \<and>
   map wire_attempt (queue (snd (resubmit_dead_letter_message 7 dlq_world))) = [Some 1]"
proof -
  have m: "sb_message_id (example_message 3) = 7" "sb_body (example_message 3) = to_json (example_job 3)"
    by (simp_all add: example_message_def)
  have dl: "dead_letters dlq_world = [example_message 3]" and q: "queue dlq_world = []"
    by (simp_all add: dlq_world_def example_world_def)
  have attempt_of: "wire_attempt (x\<lparr> sb_body := to_json j \<rparr>) = Some (attempt j)" for x j
    by (simp add: wire_attempt_def to_json_def json_dumps_def to_dict_def)
  have a3: "wire_attempt (example_message 3) = Some 3"
    by (simp add: example_message_def example_job_def wire_attempt_def to_json_def
          json_dumps_def to_dict_def)
  obtain r w' where run: "resubmit_loop 7 [example_message 3] dlq_world = (r, w')"
    by (cases "resubmit_loop 7 [example_message 3] dlq_world") auto
  have r: "r = Inr True"
    and w': "queue w' = [(example_message 3)\<lparr> sb_message_id := uuid_next dlq_world + 1,
        sb_body := to_json ((example_job 3)\<lparr> attempt := 1, created_at := clock dlq_world,
                                              message_id := uuid_next dlq_world + 1 \<rparr>) \<rparr>]"
    using resubmit_loop_found [OF m, of "[]" dlq_world] run
    by (simp_all add: q example_message_def example_job_def)
  have res: "resubmit_dead_letter_message 7 dlq_world = (True, w')"
    by (simp add: resubmit_dead_letter_message_def dl run r del: resubmit_loop.simps)
  show ?thesis
    by (simp add: res dl a3 w' attempt_of)
qed

section \<open>Partial artifact failures\<close>

lemma str_nat_0: "str_nat 0 = ''0''"
  by code_simp

lemma after_last_slash_png: "after_last_slash ''image/png'' = ''png''"
  by (simp add: after_last_slash_def)

text \<open>
  Claim C7 does not hold of the code. For the sample job the synthesis succeeds with two
  outputs, the second of which is downloaded, and the object store accepts its upload:
  the thumbnail and the image are written. Yet the body of the upload loop raises
  \<open>TypeError\<close> when it subscripts the tuple the upload returned, no entry is appended,
  and the job returns \<open>False\<close>.
\<close>

theorem stored_artifact_job_fails:
  "call_replicate_api succeeding_env (example_job 1) = Inr example_prediction \<and>
   pr_status example_prediction = ''succeeded'' \<and>
   download_all_outputs succeeding_env (pr_output example_prediction) =
     [(''bytes'', ''image/png'')] \<and>
   upload_try succeeding_env ''gen-1'' ''user-1'' 0 (''bytes'', ''image/png'')
       (example_world (example_record ''pending'')) =
     (Inl (Exc TypeError ''tuple indices must be integers or slices, not str''),
      (example_world (example_record ''pending''))
        \<lparr> blobs := [''user-1/gen-1/thumb_output_0.png'', ''user-1/gen-1/output_0.png''] \<rparr>) \<and>
   blobs (snd (process_generation_job succeeding_env (example_job 1) (example_message 1)
                 (example_world (example_record ''pending'')))) =
     [''user-1/gen-1/thumb_output_0.png'', ''user-1/gen-1/output_0.png''] \<and>
   fst (process_generation_job succeeding_env (example_job 1) (example_message 1)
          (example_world (example_record ''pending''))) = False"
proof -
  let ?w = "example_world (example_record ''pending'')"
  let ?w' = "?w\<lparr> blobs := [''user-1/gen-1/thumb_output_0.png'', ''user-1/gen-1/output_0.png''] \<rparr>"
  have call: "call_replicate_api succeeding_env (example_job 1) = Inr example_prediction"
    by (simp add: call_replicate_api_def succeeding_env_def)
  have down': "download_all_outputs succeeding_env [''https://r/0.png'', ''https://r/1.png''] =
      [(''bytes'', ''image/png'')]"
    by (simp add: succeeding_env_def)
  have job1: "generation_id (example_job 1) = ''gen-1''" "user_id (example_job 1) = ''user-1''"
    by (simp_all add: example_job_def)
  have image: "upload_image succeeding_env ''user-1'' ''gen-1'' ''output_0.png'' ''bytes''
      ''image/png'' ?w =
      (Inr (''https://blob/user-1/gen-1/output_0.png'', ''user-1/gen-1/output_0.png'', []), ?w')"
    by (simp add: upload_image_def succeeding_env_def get_blob_path_def example_world_def Let_def)
  have up: "upload_try succeeding_env ''gen-1'' ''user-1'' 0 (''bytes'', ''image/png'') ?w =
      (Inl (Exc TypeError ''tuple indices must be integers or slices, not str''), ?w')"
    by (simp add: upload_try_def str_nat_0 after_last_slash_png image Let_def del: str_nat.simps)
  have ups: "upload_images succeeding_env ''gen-1'' ''user-1'' [(''bytes'', ''image/png'')]
      (example_job 1) ?w =
      (Inl (Exc Exception ''Failed to upload any images to blob storage''), ?w')"
    by (simp add: upload_images_def up)
  have run: "process_try succeeding_env (example_job 1) ?w =
      (Inl (Exc Exception ''Failed to upload any images to blob storage''), ?w')"
    by (simp add: process_try_def call update_status_worker_eq Let_def down' ups job1
          example_prediction_def del: download_all_outputs.simps)
  have job: "process_generation_job succeeding_env (example_job 1) (example_message 1) ?w =
      (False, record_failure ?w')"
    by (simp add: process_generation_job_def run handle_job_failure_eq)
  show ?thesis
    unfolding job
    by (simp add: call down' up record_failure_def example_prediction_def
          del: download_all_outputs.simps)
qed

end
